theory Spec2Isabelle
  imports Main "HOL-Library.AList" "HOL-Library.Sublist"
begin

section \<open>Text\<close>

text \<open>
  A Python \<^verbatim>\<open>str\<close> is modelled by a \<^typ>\<open>string\<close> whose characters are the code
  points 0 to 255 (ASCII and Latin-1), one \<^typ>\<open>char\<close> per code point, so that
  \<^const>\<open>length\<close> is \<^verbatim>\<open>len\<close>. On this alphabet the character classes below are the
  ones of CPython: \<^verbatim>\<open>str.isspace\<close> and the \<^verbatim>\<open>\s\<close> of \<^verbatim>\<open>re\<close> are the same set,
  \<^verbatim>\<open>\d\<close> and \<^verbatim>\<open>int()\<close> accept the decimal digits 0 to 9 only, \<^verbatim>\<open>str.isdigit\<close>
  accepts the superscripts two, three and one (178, 179, 185) as well, and
  \<^verbatim>\<open>str.lower\<close> maps each upper-case letter to one lower-case letter. Text with code
  points above 255 is outside the model.
\<close>

definition isspace :: "char \<Rightarrow> bool" where
  "isspace c =
     (let n = (of_char c :: nat)
      in (9 \<le> n \<and> n \<le> 13) \<or> (28 \<le> n \<and> n \<le> 32) \<or> n = 133 \<or> n = 160)"

definition isdecimal :: "char \<Rightarrow> bool" where
  "isdecimal c = (let n = (of_char c :: nat) in 48 \<le> n \<and> n \<le> 57)"

definition isdigit :: "char \<Rightarrow> bool" where
  "isdigit c =
     (let n = (of_char c :: nat) in (48 \<le> n \<and> n \<le> 57) \<or> n = 178 \<or> n = 179 \<or> n = 185)"

text \<open>\<^verbatim>\<open>s.isdigit()\<close>: every character is a digit and there is at least one.\<close>

definition str_isdigit :: "string \<Rightarrow> bool" where
  "str_isdigit s = (s \<noteq> [] \<and> list_all isdigit s)"

definition lower_char :: "char \<Rightarrow> char" where
  "lower_char c =
     (let n = (of_char c :: nat)
      in if (65 \<le> n \<and> n \<le> 90) \<or> (192 \<le> n \<and> n \<le> 222 \<and> n \<noteq> 215)
         then char_of (n + 32) else c)"

definition lower :: "string \<Rightarrow> string" where
  "lower s = map lower_char s"

text \<open>\<^verbatim>\<open>s.strip()\<close> removes the white space at both ends.\<close>

definition strip :: "string \<Rightarrow> string" where
  "strip s = rev (dropWhile isspace (rev (dropWhile isspace s)))"

text \<open>\<^verbatim>\<open>s.replace(old, new)\<close> for a non-empty \<open>old\<close>: the occurrences are replaced
  from left to right and do not overlap. (With an empty \<open>old\<close> Python inserts \<open>new\<close>
  around every character.)\<close>

function replace_str :: "string \<Rightarrow> string \<Rightarrow> string \<Rightarrow> string" where
  "replace_str old new [] = (if old = [] then new else [])"
| "replace_str old new (c # cs) =
     (if old = [] then new @ c # replace_str old new cs
      else if prefix old (c # cs) then new @ replace_str old new (drop (length old) (c # cs))
      else c # replace_str old new cs)"
  by pat_completeness auto
termination
  by (relation "measure (\<lambda>(old, new, s). length s)") (auto simp: Suc_le_eq)

text \<open>\<^verbatim>\<open>sub in s\<close> on strings is \<^const>\<open>sublist\<close>: \<open>sub\<close> occurs in \<open>s\<close> as a
  contiguous block.\<close>

section \<open>The pattern extractor: \<^verbatim>\<open>parse_donation_message\<close>\<close>

text \<open>
  The regular expressions of the source use literals, the classes \<^verbatim>\<open>\d\<close>, \<^verbatim>\<open>\s\<close> and
  \<^verbatim>\<open>.\<close>, concatenation, \<^verbatim>\<open>?\<close>, \<^verbatim>\<open>*\<close>, \<^verbatim>\<open>+\<close>, the lazy \<^verbatim>\<open>*?\<close>, and exactly one
  capturing group at top level. \<^verbatim>\<open>re\<close> is a backtracking matcher: \<open>ms r s\<close> lists,
  in the order in which the matcher tries them, the rests of \<open>s\<close> after each way of
  matching \<open>r\<close> at the start of \<open>s\<close>. A greedy operator lists the longer matches first,
  the lazy star the shorter ones. (An iteration of a star that consumes nothing ends the
  loop, as in \<^verbatim>\<open>re\<close>; no star of the source has such a body.)
\<close>

datatype cclass = Digit | Space | AnyChar

fun in_class :: "cclass \<Rightarrow> char \<Rightarrow> bool" where
  "in_class Digit c = isdecimal c"
| "in_class Space c = isspace c"
| "in_class AnyChar c = (c \<noteq> CHR 0x0A)"

datatype rx = Lit string | Cls cclass | Seq rx rx | Opt rx | Star rx | LazyStar rx

fun ms :: "rx \<Rightarrow> string \<Rightarrow> string list" where
  "ms (Lit w) s = (if prefix w s then [drop (length w) s] else [])"
| "ms (Cls k) s = (case s of [] \<Rightarrow> [] | c # cs \<Rightarrow> if in_class k c then [cs] else [])"
| "ms (Seq a b) s = concat (map (\<lambda>s'. ms b s') (ms a s))"
| "ms (Opt a) s = ms a s @ [s]"
| "ms (Star a) s =
     concat (map (\<lambda>s'. if length s' < length s then ms (Star a) s' else []) (ms a s)) @ [s]"
| "ms (LazyStar a) s =
     s # concat (map (\<lambda>s'. if length s' < length s then ms (LazyStar a) s' else []) (ms a s))"

text \<open>\<^verbatim>\<open>a+\<close> is \<^verbatim>\<open>aa*\<close>.\<close>

definition Plus :: "rx \<Rightarrow> rx" where
  "Plus a = Seq a (Star a)"

fun cat :: "rx list \<Rightarrow> rx" where
  "cat [] = Lit []"
| "cat [a] = a"
| "cat (a # rest) = Seq a (cat rest)"

text \<open>A pattern \<^verbatim>\<open>pre(grp)post\<close>. \<open>match_here\<close> is \<^verbatim>\<open>re.match\<close>: the first way, in
  the matcher's order, of matching the three parts in sequence; its value is
  \<^verbatim>\<open>match.group(1)\<close>, the text the group consumed. \<open>re_search\<close> is \<^verbatim>\<open>re.search\<close>: the
  match at the leftmost position that has one (the end of the text included).\<close>

record pattern =
  pre :: rx
  grp :: rx
  post :: rx

definition match_here :: "pattern \<Rightarrow> string \<Rightarrow> string option" where
  "match_here p s =
     (case concat (map (\<lambda>s1. concat (map (\<lambda>s2. map (\<lambda>s3. take (length s1 - length s2) s1)
                                                  (ms (post p) s2))
                                       (ms (grp p) s1)))
                       (ms (pre p) s)) of
        [] \<Rightarrow> None
      | cap # _ \<Rightarrow> Some cap)"

fun re_search :: "pattern \<Rightarrow> string \<Rightarrow> string option" where
  "re_search p [] = match_here p []"
| "re_search p (c # cs) =
     (case match_here p (c # cs) of Some cap \<Rightarrow> Some cap | None \<Rightarrow> re_search p cs)"

text \<open>The building blocks of the source's patterns: \<^verbatim>\<open>\s+\<close>, the group
  \<^verbatim>\<open>(\d+(?:,\d+)*)\<close>, \<^verbatim>\<open>coins?\<close> and \<^verbatim>\<open>rubies?\<close>.\<close>

definition sp :: rx where
  "sp = Plus (Cls Space)"

definition num :: rx where
  "num = Seq (Plus (Cls Digit)) (Star (Seq (Lit '','') (Plus (Cls Digit))))"

definition coins :: rx where
  "coins = Seq (Lit ''coin'') (Opt (Lit ''s''))"

definition rubies :: rx where
  "rubies = Seq (Lit ''rubie'') (Opt (Lit ''s''))"

definition pat :: "rx list \<Rightarrow> rx list \<Rightarrow> pattern" where
  "pat front back = \<lparr>pre = cat front, grp = num, post = cat back\<rparr>"

text \<open>The list \<^verbatim>\<open>patterns\<close> of the source, in its order.\<close>

definition patterns :: "pattern list" where
  "patterns =
    [pat [Lit ''donated'', sp, Lit ''**''] [Lit ''**'', sp, Lit ''gold''],
     pat [Lit ''you have donated'', sp, Lit ''**''] [Lit ''**'', sp, Lit ''gold''],
     pat [Lit ''donated'', sp] [sp, coins],
     pat [Lit ''contributed'', sp] [sp, coins],
     pat [Lit ''gave'', sp] [sp, coins],
     pat [] [sp, coins, sp, Lit ''donated''],
     pat [] [sp, coins, sp, Lit ''to'', sp, Lit ''the'', sp, Lit ''clan''],
     pat [Lit ''clan donation'', LazyStar (Cls AnyChar)] [],
     pat [] [sp, coins, sp, Lit ''added'', sp, Lit ''to'', sp, Lit ''clan''],
     pat [Lit ''clan'', sp, Lit ''treasury'', LazyStar (Cls AnyChar)] [],
     pat [] [sp, coins, sp, Lit ''clan'', sp, Lit ''donation''],
     pat [Lit ''deposited'', sp] [sp, coins],
     pat [] [sp, coins, sp, Lit ''deposited''],
     pat [] [sp, rubies, sp, Lit ''donated''],
     pat [Lit ''donated'', sp] [sp, rubies],
     pat [] [sp, rubies, sp, Lit ''to'', sp, Lit ''the'', sp, Lit ''clan''],
     pat [] [sp, rubies, sp, Lit ''added'', sp, Lit ''to'', sp, Lit ''clan'']]"

definition donation_keywords :: "string list" where
  "donation_keywords =
     [''donated'', ''donation'', ''contribute'', ''clan'', ''gave'', ''treasury'', ''deposited'',
      ''coins'', ''rubies'']"

text \<open>
  \<^verbatim>\<open>int(amount_str)\<close> on a string of decimal digits. CPython (3.11 and the security
  releases of older versions) raises \<^verbatim>\<open>ValueError\<close> when the string has more than
  \<^verbatim>\<open>sys.get_int_max_str_digits()\<close> digits (4300 unless configured; the check is only
  made above 640 digits, and 0 switches it off, which is also the behaviour of older
  interpreters). That limit is the parameter \<open>max_str_digits\<close>; \<open>None\<close> is the
  \<^verbatim>\<open>ValueError\<close>. A captured group holds digits and commas only, so the other inputs of
  \<^verbatim>\<open>int\<close> (signs, blanks, underscores) do not arise.
\<close>

definition dec_value :: "string \<Rightarrow> int" where
  "dec_value s = foldl (\<lambda>a c. 10 * a + (int (of_char c) - 48)) 0 s"

definition py_int :: "nat \<Rightarrow> string \<Rightarrow> int option" where
  "py_int max_str_digits s =
     (if s = [] \<or> \<not> list_all isdecimal s then None
      else if max_str_digits \<noteq> 0 \<and> length s > max max_str_digits 640 then None
      else Some (dec_value s))"

text \<open>\<^verbatim>\<open>match.group(1).replace(",", "")\<close>\<close>

definition remove_commas :: "string \<Rightarrow> string" where
  "remove_commas s = filter (\<lambda>c. c \<noteq> CHR '','') s"

text \<open>The loop over \<^verbatim>\<open>patterns\<close>: the first pattern that matches and whose group
  parses gives the amount; a \<^verbatim>\<open>ValueError\<close> continues with the next pattern.\<close>

fun try_patterns :: "nat \<Rightarrow> pattern list \<Rightarrow> string \<Rightarrow> int option" where
  "try_patterns lim [] content_lower = None"
| "try_patterns lim (p # ps) content_lower =
     (case re_search p content_lower of
        None \<Rightarrow> try_patterns lim ps content_lower
      | Some amount_str \<Rightarrow>
          (case py_int lim (remove_commas amount_str) of
             Some amt \<Rightarrow> Some amt
           | None \<Rightarrow> try_patterns lim ps content_lower))"

definition has_keyword :: "string \<Rightarrow> bool" where
  "has_keyword content_lower = list_ex (\<lambda>keyword. sublist keyword content_lower) donation_keywords"

definition parse_donation_message :: "nat \<Rightarrow> string \<Rightarrow> int option" where
  "parse_donation_message lim content =
     (let content_lower = lower content
      in if \<not> has_keyword content_lower then None
         else try_patterns lim patterns content_lower)"

section \<open>Donation tracker: data model\<close>

text \<open>
  The tracker of \<^verbatim>\<open>src/bot/donation_tracker.py\<close> keeps two Python dictionaries,
  \<^verbatim>\<open>donations_data\<close> and \<^verbatim>\<open>registered_players\<close>. A Python dictionary keeps its
  keys in insertion order, assigning to an existing key keeps the key's position and
  assigning to a new key appends it: this is an association list with
  \<^const>\<open>AList.update\<close>, \<^const>\<open>AList.delete\<close> and \<^const>\<open>map_of\<close>.

  An instant is the number of microseconds since the epoch (the resolution of Python's
  \<^verbatim>\<open>datetime\<close>). The code stores \<^verbatim>\<open>current_time.isoformat()\<close> of a UTC-aware
  datetime and reads it back with \<^verbatim>\<open>datetime.fromisoformat\<close>, which returns the same
  instant, so the stored string is represented by the instant it denotes.
\<close>

type_synonym instant = int

definition day_us :: int where
  "day_us = 86400000000"

text \<open>\<^verbatim>\<open>(a - b).days\<close>: a \<^verbatim>\<open>timedelta\<close> is normalised so that \<^verbatim>\<open>days\<close> is the floor
  of the difference divided by one day (negative differences round down too).\<close>

definition timedelta_days :: "instant \<Rightarrow> instant \<Rightarrow> int" where
  "timedelta_days a b = (a - b) div day_us"

text \<open>\<^verbatim>\<open>donation_record = {"amount": amount, "timestamp": timestamp}\<close>\<close>

record donation_record =
  rec_amount :: int
  rec_timestamp :: instant

text \<open>An entry of \<^verbatim>\<open>total_donations\<close> has the keys \<^verbatim>\<open>name\<close>, \<^verbatim>\<open>amount\<close> and
  \<^verbatim>\<open>donations\<close>; an entry of \<^verbatim>\<open>weekly_donations\<close> has \<^verbatim>\<open>week_start\<close> as well.
  These are the shapes that \<^verbatim>\<open>add_donation\<close> writes. The typed ledger holds such
  entries only: a dictionary read from a file with entries of another shape (a weekly
  entry without \<^verbatim>\<open>week_start\<close>, on which the ledger operations raise \<^verbatim>\<open>KeyError\<close>) is
  not a typed ledger.\<close>

record total_entry =
  name :: string
  amount :: int
  donations :: "donation_record list"

record weekly_entry = total_entry +
  week_start :: instant

record guild_data =
  weekly_donations :: "(string \<times> weekly_entry) list"
  total_donations :: "(string \<times> total_entry) list"
  last_reset :: "instant option"

type_synonym donations_data = "(string \<times> guild_data) list"

section \<open>The ledger: \<^verbatim>\<open>add_donation\<close> and \<^verbatim>\<open>cleanup_expired_weeks\<close>\<close>

definition new_guild :: guild_data where
  "new_guild = \<lparr>weekly_donations = [], total_donations = [], last_reset = None\<rparr>"

definition new_week :: "string \<Rightarrow> instant \<Rightarrow> weekly_entry" where
  "new_week player_name timestamp =
     \<lparr>name = player_name, amount = 0, donations = [], week_start = timestamp\<rparr>"

definition new_total :: "string \<Rightarrow> total_entry" where
  "new_total player_name = \<lparr>name = player_name, amount = 0, donations = []\<rparr>"

text \<open>
  \<^verbatim>\<open>add_donation(guild_id, user_id, player_name, amount)\<close>, with the clock value
  \<^verbatim>\<open>current_time\<close> it reads as the argument \<open>now\<close>. The statements of the source, in
  order: create the guild's record if absent; create the player's weekly and total
  entries if absent; reset the weekly entry when \<^verbatim>\<open>days_since_start >= 7\<close>; add the
  amount and append the record to the weekly entry and to the total entry. The same
  record object is appended to both lists; it is never mutated afterwards, so the sharing
  is not observable. The call ends with \<^verbatim>\<open>save_donations()\<close>, which writes the
  dictionary that the result stands for (\<open>enc_data\<close> and \<open>save_donations\<close> below).
\<close>

definition add_donation ::
  "string \<Rightarrow> string \<Rightarrow> string \<Rightarrow> int \<Rightarrow> instant \<Rightarrow> donations_data \<Rightarrow> donations_data" where
  "add_donation guild_id user_id player_name amt now data =
     (let timestamp = now;
          guild = (case map_of data guild_id of None \<Rightarrow> new_guild | Some g \<Rightarrow> g);
          weekly0 = (case map_of (weekly_donations guild) user_id of
                       None \<Rightarrow> new_week player_name timestamp | Some w \<Rightarrow> w);
          total0 = (case map_of (total_donations guild) user_id of
                      None \<Rightarrow> new_total player_name | Some t \<Rightarrow> t);
          days_since_start = timedelta_days now (week_start weekly0);
          weekly1 = (if days_since_start \<ge> 7 then new_week player_name timestamp else weekly0);
          donation = \<lparr>rec_amount = amt, rec_timestamp = timestamp\<rparr>;
          weekly2 = weekly1\<lparr>amount := amount weekly1 + amt,
                            donations := donations weekly1 @ [donation]\<rparr>;
          total1 = total0\<lparr>amount := amount total0 + amt,
                          donations := donations total0 @ [donation]\<rparr>
      in AList.update guild_id
           (guild\<lparr>weekly_donations := AList.update user_id weekly2 (weekly_donations guild),
                   total_donations := AList.update user_id total1 (total_donations guild)\<rparr>)
           data)"

text \<open>
  \<^verbatim>\<open>cleanup_expired_weeks\<close>: for each guild, first collect \<^verbatim>\<open>expired_players\<close>, then
  delete each of them from the guild's \<^verbatim>\<open>weekly_donations\<close>. (Every guild record of the
  typed model has the key \<^verbatim>\<open>weekly_donations\<close>, so the \<^verbatim>\<open>continue\<close> of the source is
  never taken.) The second component counts the deleted entries
  (\<^verbatim>\<open>total_cleaned\<close>), which decides whether the data is saved.
\<close>

definition expired_players :: "instant \<Rightarrow> (string \<times> weekly_entry) list \<Rightarrow> string list" where
  "expired_players now weekly =
     map fst (filter (\<lambda>(user_id, d). timedelta_days now (week_start d) \<ge> 7) weekly)"

definition cleanup_guild :: "instant \<Rightarrow> guild_data \<Rightarrow> guild_data" where
  "cleanup_guild now guild =
     guild\<lparr>weekly_donations :=
       fold AList.delete (expired_players now (weekly_donations guild)) (weekly_donations guild)\<rparr>"

definition cleanup_expired_weeks :: "instant \<Rightarrow> donations_data \<Rightarrow> donations_data" where
  "cleanup_expired_weeks now data = map (\<lambda>(guild_id, guild). (guild_id, cleanup_guild now guild)) data"

definition total_cleaned :: "instant \<Rightarrow> donations_data \<Rightarrow> nat" where
  "total_cleaned now data =
     sum_list (map (\<lambda>(guild_id, guild). length (expired_players now (weekly_donations guild))) data)"

text \<open>\<^verbatim>\<open>get_weekly_donations\<close> and \<^verbatim>\<open>get_total_donations\<close>, read at one player.\<close>

definition get_weekly_donations :: "donations_data \<Rightarrow> string \<Rightarrow> (string \<times> weekly_entry) list" where
  "get_weekly_donations data guild_id =
     (case map_of data guild_id of None \<Rightarrow> [] | Some g \<Rightarrow> weekly_donations g)"

definition get_total_donations :: "donations_data \<Rightarrow> string \<Rightarrow> (string \<times> total_entry) list" where
  "get_total_donations data guild_id =
     (case map_of data guild_id of None \<Rightarrow> [] | Some g \<Rightarrow> total_donations g)"

definition window_of :: "donations_data \<Rightarrow> string \<Rightarrow> string \<Rightarrow> weekly_entry option" where
  "window_of data guild_id user_id = map_of (get_weekly_donations data guild_id) user_id"

definition total_of :: "donations_data \<Rightarrow> string \<Rightarrow> string \<Rightarrow> total_entry option" where
  "total_of data guild_id user_id = map_of (get_total_donations data guild_id) user_id"

text \<open>A history of the ledger: calls of \<^verbatim>\<open>add_donation\<close> and of
  \<^verbatim>\<open>cleanup_expired_weeks\<close>, each with the clock value it reads.\<close>

datatype ledger_op =
    Append string string string int instant
  | Sweep instant

fun apply_op :: "donations_data \<Rightarrow> ledger_op \<Rightarrow> donations_data" where
  "apply_op data (Append guild_id user_id player_name amt now) =
     add_donation guild_id user_id player_name amt now data"
| "apply_op data (Sweep now) = cleanup_expired_weeks now data"

definition run_ops :: "ledger_op list \<Rightarrow> donations_data \<Rightarrow> donations_data" where
  "run_ops ops data = foldl apply_op data ops"

text \<open>The records a history appends for one player of one guild, in order.\<close>

fun appended :: "ledger_op list \<Rightarrow> string \<Rightarrow> string \<Rightarrow> donation_record list" where
  "appended [] g u = []"
| "appended (Append guild_id user_id player_name amt now # ops) g u =
     (if guild_id = g \<and> user_id = u then [\<lparr>rec_amount = amt, rec_timestamp = now\<rparr>] else [])
       @ appended ops g u"
| "appended (Sweep now # ops) g u = appended ops g u"

fun op_guilds :: "ledger_op list \<Rightarrow> string list" where
  "op_guilds [] = []"
| "op_guilds (Append guild_id user_id player_name amt now # ops) = guild_id # op_guilds ops"
| "op_guilds (Sweep now # ops) = op_guilds ops"

text \<open>The keys of a Python dictionary are distinct.\<close>

definition wf_ledger :: "donations_data \<Rightarrow> bool" where
  "wf_ledger data \<longleftrightarrow>
     distinct (map fst data) \<and>
     (\<forall>guild \<in> snd ` set data.
        distinct (map fst (weekly_donations guild)) \<and> distinct (map fst (total_donations guild)))"

definition ledger0 :: donations_data where
  "ledger0 = add_donation ''1'' ''7'' ''ann'' 50 0 []"

section \<open>The attribution resolver: \<^verbatim>\<open>process_donation_message\<close>\<close>

text \<open>\<^verbatim>\<open>registered_players\<close>: guild id, then user id, then player name.\<close>

type_synonym registered_players = "(string \<times> (string \<times> string) list) list"

definition is_player_registered :: "registered_players \<Rightarrow> string \<Rightarrow> string \<Rightarrow> bool" where
  "is_player_registered players guild_id user_id =
     (case map_of players guild_id of
        None \<Rightarrow> False
      | Some guild_players \<Rightarrow> user_id \<in> set (map fst guild_players))"

text \<open>\<^verbatim>\<open>self.registered_players[guild_id][user_id]\<close>, \<open>None\<close> where Python raises
  \<^verbatim>\<open>KeyError\<close>.\<close>

definition registered_name :: "registered_players \<Rightarrow> string \<Rightarrow> string \<Rightarrow> string option" where
  "registered_name players guild_id user_id =
     (case map_of players guild_id of
        None \<Rightarrow> None
      | Some guild_players \<Rightarrow> map_of guild_players user_id)"

text \<open>What the handler reads of a message: its text, the title and description of each
  embed (either may be absent), \<^verbatim>\<open>str(user.id)\<close> of each mention and
  \<^verbatim>\<open>str(message.guild.id)\<close>.\<close>

record embed =
  title :: "string option"
  description :: "string option"

record message =
  content :: string
  embeds :: "embed list"
  mentions :: "string list"
  guild :: string

text \<open>\<^verbatim>\<open>if embed.description:\<close> holds for a string that is present and not empty.\<close>

definition truthy :: "string option \<Rightarrow> bool" where
  "truthy x = (case x of None \<Rightarrow> False | Some s \<Rightarrow> s \<noteq> [])"

definition parse_opt :: "nat \<Rightarrow> string option \<Rightarrow> int option" where
  "parse_opt lim x =
     (case x of None \<Rightarrow> None | Some s \<Rightarrow> if s = [] then None else parse_donation_message lim s)"

text \<open>The loop over the embeds that looks for \<^verbatim>\<open>donation_info\<close>: description first,
  then title, leaving at the first success.\<close>

fun embeds_donation :: "nat \<Rightarrow> embed list \<Rightarrow> int option" where
  "embeds_donation lim [] = None"
| "embeds_donation lim (e # es) =
     (case parse_opt lim (description e) of
        Some amt \<Rightarrow> Some amt
      | None \<Rightarrow>
          (case parse_opt lim (title e) of
             Some amt \<Rightarrow> Some amt
           | None \<Rightarrow> embeds_donation lim es))"

definition donation_info :: "nat \<Rightarrow> message \<Rightarrow> int option" where
  "donation_info lim m =
     (case parse_donation_message lim (content m) of
        Some amt \<Rightarrow> Some amt
      | None \<Rightarrow> embeds_donation lim (embeds m))"

definition content_to_search :: "message \<Rightarrow> string" where
  "content_to_search m =
     foldl (\<lambda>acc e.
              (let acc1 = (case description e of
                             None \<Rightarrow> acc | Some d \<Rightarrow> if d = [] then acc else acc @ '' '' @ d)
               in case title e of
                    None \<Rightarrow> acc1 | Some t \<Rightarrow> if t = [] then acc1 else acc1 @ '' '' @ t))
           (content m) (embeds m)"

text \<open>
  The loop over \<^verbatim>\<open>mentioned_users\<close>. Every call of \<^verbatim>\<open>add_donation\<close> reads the clock;
  \<open>clock k\<close> is the value read by the call number \<open>k\<close> of this handler run, and the
  counter that is threaded through is the number of calls made so far
  (\<^verbatim>\<open>donation_recorded\<close> holds when it is positive).
\<close>

fun credit_mentions ::
  "registered_players \<Rightarrow> string \<Rightarrow> int \<Rightarrow> (nat \<Rightarrow> instant) \<Rightarrow> string list \<Rightarrow>
   donations_data \<times> nat \<Rightarrow> donations_data \<times> nat" where
  "credit_mentions players guild_id amt clock [] (data, k) = (data, k)"
| "credit_mentions players guild_id amt clock (user_id # rest) (data, k) =
     (case registered_name players guild_id user_id of
        None \<Rightarrow> credit_mentions players guild_id amt clock rest (data, k)
      | Some player_name \<Rightarrow>
          credit_mentions players guild_id amt clock rest
            (add_donation guild_id user_id player_name amt (clock k) data, Suc k))"

text \<open>
  \<^verbatim>\<open>player_name.replace("\<dots>", "").replace("  ", " ").strip()\<close>: the first call removes
  the crossed-swords emoji (U+2694 U+FE0F), which lies outside the alphabet of the model
  and so never occurs in a name here.
\<close>

definition clean_player_name :: "string \<Rightarrow> string" where
  "clean_player_name player_name = strip (replace_str ''  '' '' '' player_name)"

definition name_in_text :: "string \<Rightarrow> string \<Rightarrow> bool" where
  "name_in_text player_name searched = sublist (lower (clean_player_name player_name)) (lower searched)"

datatype reaction = Tracked | Unattributed

text \<open>
  \<^verbatim>\<open>process_donation_message\<close>: the new ledger and the reaction added to the message
  (the check mark, the question mark, or none when no donation is detected). The
  fallback scans the guild's players in the dictionary's order and stops at the first
  name found in the text.
\<close>

definition process_donation_message ::
  "nat \<Rightarrow> registered_players \<Rightarrow> (nat \<Rightarrow> instant) \<Rightarrow> message \<Rightarrow> donations_data \<Rightarrow>
   donations_data \<times> reaction option" where
  "process_donation_message lim players clock m data =
     (case donation_info lim m of
        None \<Rightarrow> (data, None)
      | Some amt \<Rightarrow>
          (let guild_id = guild m;
               (data1, k) = credit_mentions players guild_id amt clock (mentions m) (data, 0)
           in if k > 0 then (data1, Some Tracked)
              else (case find (\<lambda>(user_id, player_name).
                                 name_in_text player_name (content_to_search m))
                              (case map_of players guild_id of None \<Rightarrow> [] | Some ps \<Rightarrow> ps) of
                      None \<Rightarrow> (data1, Some Unattributed)
                    | Some (user_id, player_name) \<Rightarrow>
                        (add_donation guild_id user_id player_name amt (clock k) data1,
                         Some Tracked))))"

section \<open>Persistence and the weekly report\<close>

text \<open>
  The documents that \<^verbatim>\<open>json.load\<close> returns and \<^verbatim>\<open>json.dump\<close> writes: a JSON object
  is a dictionary with string keys, in the order of the file. \<open>JTime t\<close> is the JSON
  string that holds the ISO form of the instant \<open>t\<close>. (Numbers with a fraction do not
  occur in the tracker's files and are not modelled.)
\<close>

datatype json =
    JNull
  | JBool bool
  | JInt int
  | JStr string
  | JTime instant
  | JArr "json list"
  | JObj "(string \<times> json) list"

text \<open>The Python dictionary that a typed ledger stands for, with the keys in the order
  in which \<^verbatim>\<open>add_donation\<close> writes them.\<close>

definition enc_record :: "donation_record \<Rightarrow> json" where
  "enc_record r = JObj [(''amount'', JInt (rec_amount r)), (''timestamp'', JTime (rec_timestamp r))]"

definition enc_total :: "total_entry \<Rightarrow> json" where
  "enc_total t =
     JObj [(''name'', JStr (name t)), (''amount'', JInt (amount t)),
           (''donations'', JArr (map enc_record (donations t)))]"

definition enc_weekly :: "weekly_entry \<Rightarrow> json" where
  "enc_weekly w =
     JObj [(''name'', JStr (name w)), (''amount'', JInt (amount w)),
           (''donations'', JArr (map enc_record (donations w))),
           (''week_start'', JTime (week_start w))]"

definition enc_guild :: "guild_data \<Rightarrow> json" where
  "enc_guild g =
     JObj [(''weekly_donations'', JObj (map (\<lambda>(user_id, w). (user_id, enc_weekly w)) (weekly_donations g))),
           (''total_donations'', JObj (map (\<lambda>(user_id, t). (user_id, enc_total t)) (total_donations g))),
           (''last_reset'', (case last_reset g of None \<Rightarrow> JNull | Some t \<Rightarrow> JTime t))]"

definition enc_data :: "donations_data \<Rightarrow> json" where
  "enc_data data = JObj (map (\<lambda>(guild_id, g). (guild_id, enc_guild g)) data)"

text \<open>A file: absent, present but not valid JSON, or holding a document.\<close>

datatype stored = Missing | Unreadable | Stored json

datatype error = KeyError | TypeError | AttributeError | ValueError | EntryError

text \<open>\<^verbatim>\<open>str(k).isdigit() and len(str(k)) > 10\<close>\<close>

definition long_numeric :: "string \<Rightarrow> bool" where
  "long_numeric k = (str_isdigit k \<and> length k > 10)"

text \<open>
  \<^verbatim>\<open>load_donations\<close>. An absent file and a \<^verbatim>\<open>JSONDecodeError\<close> give the empty
  dictionary. The test \<^verbatim>\<open>"weekly_donations" in data\<close> is a key test on a dictionary, a
  membership test on a list, a substring test on a string and a \<^verbatim>\<open>TypeError\<close> on a
  number, a truth value or \<^verbatim>\<open>null\<close>; where it holds for a list or a string,
  \<^verbatim>\<open>data.keys()\<close> raises \<^verbatim>\<open>AttributeError\<close>. Neither error is caught.
\<close>

definition load_donations :: "stored \<Rightarrow> error + json" where
  "load_donations file =
     (case file of
        Missing \<Rightarrow> Inr (JObj [])
      | Unreadable \<Rightarrow> Inr (JObj [])
      | Stored data \<Rightarrow>
          (case data of
             JObj kvs \<Rightarrow>
               if ''weekly_donations'' \<in> set (map fst kvs) \<and> \<not> list_ex long_numeric (map fst kvs)
               then Inr (JObj [(''0'', data)])
               else Inr data
           | JArr xs \<Rightarrow> if JStr ''weekly_donations'' \<in> set xs then Inl AttributeError else Inr data
           | JStr s \<Rightarrow> if sublist ''weekly_donations'' s then Inl AttributeError else Inr data
           | JTime t \<Rightarrow> Inr data
           | _ \<Rightarrow> Inl TypeError))"

text \<open>\<^verbatim>\<open>load_registered_players\<close>: the test is \<^verbatim>\<open>data and not any(\<dots>)\<close>, so a value
  that is not a dictionary is returned when it is falsy and raises \<^verbatim>\<open>AttributeError\<close>
  at \<^verbatim>\<open>data.keys()\<close> when it is truthy.\<close>

definition load_registered_players :: "stored \<Rightarrow> error + json" where
  "load_registered_players file =
     (case file of
        Missing \<Rightarrow> Inr (JObj [])
      | Unreadable \<Rightarrow> Inr (JObj [])
      | Stored data \<Rightarrow>
          (case data of
             JObj kvs \<Rightarrow>
               if kvs \<noteq> [] \<and> \<not> list_ex long_numeric (map fst kvs)
               then Inr (JObj [(''0'', data)])
               else Inr data
           | JNull \<Rightarrow> Inr data
           | JBool b \<Rightarrow> if b then Inl AttributeError else Inr data
           | JInt n \<Rightarrow> if n \<noteq> 0 then Inl AttributeError else Inr data
           | JStr s \<Rightarrow> if s \<noteq> [] then Inl AttributeError else Inr data
           | JTime t \<Rightarrow> Inl AttributeError
           | JArr xs \<Rightarrow> if xs \<noteq> [] then Inl AttributeError else Inr data))"

text \<open>
  \<^verbatim>\<open>json.dump\<close> writes an integer with \<^verbatim>\<open>int.__repr__\<close>, which raises \<^verbatim>\<open>ValueError\<close>
  when the decimal form of the integer has more digits than the interpreter's limit
  (the parameter \<open>max_str_digits\<close> of \<open>py_int\<close>: 4300 unless configured, never applied
  below 641 digits, switched off by 0). An integer has more than \<open>n\<close> digits when its
  absolute value is at least \<open>10 ^ n\<close>.
\<close>

definition int_str_ok :: "nat \<Rightarrow> int \<Rightarrow> bool" where
  "int_str_ok max_str_digits n = (max_str_digits = 0 \<or> \<bar>n\<bar> < 10 ^ max max_str_digits 640)"

fun ints_of :: "json \<Rightarrow> int list" where
  "ints_of (JInt n) = [n]"
| "ints_of (JArr xs) = concat (map ints_of xs)"
| "ints_of (JObj kvs) = concat (map (\<lambda>kv. ints_of (snd kv)) kvs)"
| "ints_of v = []"

definition json_dumpable :: "nat \<Rightarrow> json \<Rightarrow> bool" where
  "json_dumpable max_str_digits doc = list_all (int_str_ok max_str_digits) (ints_of doc)"

text \<open>
  \<^verbatim>\<open>save_donations\<close> opens the file for writing, which empties it, and writes the
  dictionary with \<^verbatim>\<open>json.dump\<close>. When every integer can be written, the file holds the
  document, and \<^verbatim>\<open>json.load\<close> reads the same document back. Otherwise the
  \<^verbatim>\<open>ValueError\<close> leaves the call (and \<^verbatim>\<open>add_donation\<close>, whose last statement it is,
  the ledger in memory being updated already) with a part of the text in the file, which
  is not valid JSON. The result is the file and the exception, if any.
\<close>

definition save_donations :: "nat \<Rightarrow> json \<Rightarrow> stored \<times> error option" where
  "save_donations max_str_digits doc =
     (if json_dumpable max_str_digits doc then (Stored doc, None)
      else (Unreadable, Some ValueError))"

text \<open>\<^verbatim>\<open>save_registered_players\<close>: a directory document holds strings only, so
  \<^verbatim>\<open>json.dump\<close> writes it whole, and \<^verbatim>\<open>json.load\<close> reads the same document back.\<close>

definition save_registered_players :: "json \<Rightarrow> stored" where
  "save_registered_players doc = Stored doc"

text \<open>
  \<^verbatim>\<open>generate_weekly_report\<close>, applied to \<^verbatim>\<open>self.donations_data\<close>. The summary is kept as
  data: one line per player with rank, name, amount, number of donations and days left,
  then the total and the number of donors.

  What the code needs of an entry: it is a dictionary with the four keys; the name is
  formatted whatever it is; the amount is added to an integer and formatted with
  \<^verbatim>\<open>{amount:,}\<close>, so it is an integer or a truth value (which Python counts as 1 or 0);
  \<^verbatim>\<open>len\<close> is taken of the donations, so they are a list, a dictionary or a string; the
  week start is a string that \<^verbatim>\<open>fromisoformat\<close> reads as a datetime with an offset.
  \<open>EntryError\<close> stands for the exception that any other entry raises (a \<^verbatim>\<open>KeyError\<close>,
  \<^verbatim>\<open>TypeError\<close>, \<^verbatim>\<open>AttributeError\<close> or \<^verbatim>\<open>ValueError\<close>). The string of \<open>JTime t\<close> is
  the \<^verbatim>\<open>isoformat()\<close> of the instant in UTC, which has 25 characters, or 32 when the
  microseconds are not zero; a \<open>JStr\<close> is any other string.
\<close>

record report_line =
  rank :: nat
  player :: json
  given :: int
  donation_count :: nat
  days_remaining :: int

datatype report = NoDonations | Summary "report_line list" int nat

text \<open>\<^verbatim>\<open>not weekly_data\<close>\<close>

fun falsy :: "json \<Rightarrow> bool" where
  "falsy JNull = True"
| "falsy (JBool b) = (\<not> b)"
| "falsy (JInt n) = (n = 0)"
| "falsy (JStr s) = (s = [])"
| "falsy (JTime t) = False"
| "falsy (JArr xs) = (xs = [])"
| "falsy (JObj kvs) = (kvs = [])"

text \<open>\<^verbatim>\<open>len(v)\<close>, \<open>None\<close> where Python raises \<^verbatim>\<open>TypeError\<close>.\<close>

fun py_len :: "json \<Rightarrow> nat option" where
  "py_len (JArr xs) = Some (length xs)"
| "py_len (JObj kvs) = Some (length kvs)"
| "py_len (JStr s) = Some (length s)"
| "py_len (JTime t) = Some (if t mod 1000000 = 0 then 25 else 32)"
| "py_len v = None"

text \<open>The amount as the integer that Python computes with.\<close>

fun py_amount :: "json \<Rightarrow> int option" where
  "py_amount (JInt a) = Some a"
| "py_amount (JBool b) = Some (if b then 1 else 0)"
| "py_amount v = None"

definition read_entry :: "json \<Rightarrow> (json \<times> int \<times> nat \<times> instant) option" where
  "read_entry d =
     (case d of
        JObj fs \<Rightarrow>
          (case (map_of fs ''name'', map_of fs ''amount'', map_of fs ''donations'',
                 map_of fs ''week_start'') of
             (Some n, Some a, Some ds, Some (JTime ws)) \<Rightarrow>
               (case (py_amount a, py_len ds) of
                  (Some amt, Some c) \<Rightarrow> Some (n, amt, c, ws)
                | _ \<Rightarrow> None)
           | _ \<Rightarrow> None)
      | _ \<Rightarrow> None)"

fun read_entries :: "(string \<times> json) list \<Rightarrow> (json \<times> int \<times> nat \<times> instant) list option" where
  "read_entries [] = Some []"
| "read_entries ((user_id, d) # rest) =
     (case read_entry d of
        None \<Rightarrow> None
      | Some e \<Rightarrow> (case read_entries rest of None \<Rightarrow> None | Some es \<Rightarrow> Some (e # es)))"

text \<open>\<^verbatim>\<open>sorted(\<dots>, key=\<dots>["amount"], reverse=True)\<close> is stable: players with equal
  amounts keep the dictionary's order.\<close>

definition sorted_players ::
  "(json \<times> int \<times> nat \<times> instant) list \<Rightarrow> (json \<times> int \<times> nat \<times> instant) list" where
  "sorted_players es = sort_key (\<lambda>(n, a, c, ws). - a) es"

definition report_lines ::
  "instant \<Rightarrow> (json \<times> int \<times> nat \<times> instant) list \<Rightarrow> report_line list" where
  "report_lines now es =
     map (\<lambda>(i, (n, a, c, ws)).
            \<lparr>rank = Suc i, player = n, given = a, donation_count = c,
             days_remaining = max 0 (7 - timedelta_days now ws)\<rparr>)
         (enumerate 0 es)"

definition generate_weekly_report :: "json \<Rightarrow> instant \<Rightarrow> error + report" where
  "generate_weekly_report store now =
     (case store of
        JObj kvs \<Rightarrow>
          (case map_of kvs ''weekly_donations'' of
             None \<Rightarrow> Inl KeyError
           | Some weekly_data \<Rightarrow>
               if falsy weekly_data then Inr NoDonations
               else (case weekly_data of
                       JObj items \<Rightarrow>
                         (case read_entries items of
                            None \<Rightarrow> Inl EntryError
                          | Some es \<Rightarrow>
                              Inr (Summary (report_lines now (sorted_players es))
                                     (sum_list (map (\<lambda>(n, a, c, ws). a) es)) (length es)))
                     | _ \<Rightarrow> Inl AttributeError))
      | _ \<Rightarrow> Inl TypeError)"

text \<open>\<^verbatim>\<open>str(guild.id)\<close> of a guild id, which is a natural number: a non-empty string of
  decimal digits.\<close>

definition decimal_id :: "string \<Rightarrow> bool" where
  "decimal_id g = (g \<noteq> [] \<and> list_all isdecimal g)"

text \<open>Sample documents: a legacy ledger, a legacy directory, a history of the ledger
  and a file that has the key \<^verbatim>\<open>weekly_donations\<close> next to a long numeric key.\<close>

definition legacy_ledger :: "(string \<times> json) list" where
  "legacy_ledger =
     [(''weekly_donations'', JObj [(''7'', JObj [(''name'', JStr ''ann''), (''amount'', JInt 50)])]),
      (''total_donations'', JObj [(''7'', JObj [(''name'', JStr ''ann''), (''amount'', JInt 50)])]),
      (''last_reset'', JNull)]"

definition legacy_directory :: "(string \<times> json) list" where
  "legacy_directory = [(''ann'', JStr ''Ann''), (''bob'', JStr ''Bob'')]"

definition history0 :: "ledger_op list" where
  "history0 =
     [Append ''123456789012345678'' ''7'' ''ann'' 50 0,
      Append ''123456789012345678'' ''8'' ''bob'' 20 day_us,
      Sweep (8 * day_us),
      Append ''123456789012345678'' ''7'' ''ann'' 5 (9 * day_us)]"

text \<open>A history of two donations of \<open>10 ^ 4300 - 1\<close>, the largest amount of 4300
  digits, for one player.\<close>

definition huge_amount :: int where
  "huge_amount = 10 ^ 4300 - 1"

definition huge_history :: "ledger_op list" where
  "huge_history =
     [Append ''123456789012345678'' ''7'' ''ann'' huge_amount 0,
      Append ''123456789012345678'' ''7'' ''ann'' huge_amount 1]"

definition hybrid_ledger :: "(string \<times> json) list" where
  "hybrid_ledger =
     [(''weekly_donations'',
       JObj [(''7'', JObj [(''name'', JStr ''ann''), (''amount'', JInt 50),
                          (''donations'', JArr [JObj [(''amount'', JInt 50), (''timestamp'', JTime 0)]]),
                          (''week_start'', JTime 0)])]),
      (''12345678901'', JObj [])]"

section \<open>Auxiliary notions for the properties\<close>




text \<open>The characters of a captured group: decimal digits and commas.\<close>

definition numeral_char :: "char \<Rightarrow> bool" where
  "numeral_char c = (isdecimal c \<or> c = CHR '','')"









text \<open>Sample inputs: a message whose first number has 4301 digits, a message that holds
  the phrasings of the first two patterns with two amounts, and a message that mentions
  two registered players.\<close>

definition long_digits :: string where
  "long_digits = replicate 4301 (CHR ''7'')"



definition players0 :: registered_players where
  "players0 = [(''9'', [(''1'', ''ann''), (''2'', ''bob''), (''3'', ''cy'')])]"

definition message0 :: message where
  "message0 = \<lparr>content = ''cy donated 500 coins'', embeds = [], mentions = [''1'', ''2''], guild = ''9''\<rparr>"

section \<open>Properties of the ledger\<close>

lemma timedelta_days_ge7: "timedelta_days now a \<ge> 7 \<longleftrightarrow> now - a \<ge> 7 * day_us"
  unfolding timedelta_days_def day_us_def by linarith

lemma fold_delete_filter:
  "fold AList.delete ks al = filter (\<lambda>p. fst p \<notin> set ks) al"
proof (induction ks arbitrary: al)
  case Nil
  then show ?case by simp
next
  case (Cons k ks)
  have "fold AList.delete (k # ks) al = filter (\<lambda>p. fst p \<notin> set ks) (AList.delete k al)"
    using Cons.IH by simp
  also have "\<dots> = filter (\<lambda>p. fst p \<notin> set (k # ks)) al"
    by (auto simp: AList.delete_eq intro: filter_cong)
  finally show ?case .
qed

lemma expired_players_after_delete:
  "expired_players now (fold AList.delete (expired_players now w) w) = []"
  unfolding fold_delete_filter expired_players_def
  by (auto simp: filter_empty_conv image_iff split: prod.splits)

lemma cleanup_guild_idem: "cleanup_guild now (cleanup_guild now g) = cleanup_guild now g"
  by (simp add: cleanup_guild_def expired_players_after_delete)

lemma total_cleaned_after: "total_cleaned now (cleanup_expired_weeks now data) = 0"
  by (induction data)
     (auto simp: cleanup_expired_weeks_def total_cleaned_def cleanup_guild_def
        expired_players_after_delete)

lemma map_of_cleanup:
  "map_of (cleanup_expired_weeks now data) g = map_option (cleanup_guild now) (map_of data g)"
  by (induction data) (auto simp: cleanup_expired_weeks_def)

lemma total_of_cleanup: "total_of (cleanup_expired_weeks now data) g u = total_of data g u"
  by (simp add: total_of_def get_total_donations_def map_of_cleanup cleanup_guild_def
      split: option.splits)

lemma total_of_empty: "total_of [] g u = None"
  by (simp add: total_of_def get_total_donations_def)

lemma total_of_add_donation:
  "total_of (add_donation g' u' nm amt now data) g u =
     (if g' = g \<and> u' = u then
        (let t = (case total_of data g u of None \<Rightarrow> new_total nm | Some t \<Rightarrow> t)
         in Some (t\<lparr>amount := amount t + amt,
                    donations := donations t @ [\<lparr>rec_amount = amt, rec_timestamp = now\<rparr>]\<rparr>))
      else total_of data g u)"
  by (auto simp: total_of_def get_total_donations_def add_donation_def Let_def AList.update_conv'
      new_guild_def split: option.splits)

lemma run_ops_Cons: "run_ops (x # ops) data = run_ops ops (apply_op data x)"
  by (simp add: run_ops_def)

lemma total_amount_run:
  "map_option amount (total_of (run_ops ops data) g u) =
     (case total_of data g u of
        None \<Rightarrow> if appended ops g u = [] then None
                else Some (sum_list (map rec_amount (appended ops g u)))
      | Some t \<Rightarrow> Some (amount t + sum_list (map rec_amount (appended ops g u))))"
proof (induction ops arbitrary: data)
  case Nil
  then show ?case by (simp add: run_ops_def split: option.splits)
next
  case (Cons x ops)
  show ?case
  proof (cases x)
    case (Append g' u' nm amt now)
    then show ?thesis
      unfolding run_ops_Cons Cons.IH
      by (auto simp: total_of_add_donation Let_def new_total_def split: option.splits)
  next
    case (Sweep now)
    then show ?thesis
      unfolding run_ops_Cons Cons.IH by (simp add: total_of_cleanup split: option.splits)
  qed
qed

lemma total_events_run:
  "map_option donations (total_of (run_ops ops data) g u) =
     (case total_of data g u of
        None \<Rightarrow> if appended ops g u = [] then None else Some (appended ops g u)
      | Some t \<Rightarrow> Some (donations t @ appended ops g u))"
proof (induction ops arbitrary: data)
  case Nil
  then show ?case by (simp add: run_ops_def split: option.splits)
next
  case (Cons x ops)
  show ?case
  proof (cases x)
    case (Append g' u' nm amt now)
    then show ?thesis
      unfolding run_ops_Cons Cons.IH
      by (auto simp: total_of_add_donation Let_def new_total_def split: option.splits)
  next
    case (Sweep now)
    then show ?thesis
      unfolding run_ops_Cons Cons.IH by (simp add: total_of_cleanup split: option.splits)
  qed
qed

lemma map_of_filter_keys:
  "map_of (filter (\<lambda>p. fst p \<notin> K) al) k = (if k \<in> K then None else map_of al k)"
  by (induction al) auto

lemma expired_key_iff:
  assumes "distinct (map fst weekly)"
  shows "u \<in> set (expired_players now weekly) \<longleftrightarrow>
         (\<exists>w. map_of weekly u = Some w \<and> timedelta_days now (week_start w) \<ge> 7)"
  using assms unfolding expired_players_def
  by (auto simp: image_iff)

lemma ledger0_window:
  "window_of ledger0 ''1'' ''7'' =
     Some \<lparr>name = ''ann'', amount = 50,
           donations = [\<lparr>rec_amount = 50, rec_timestamp = 0\<rparr>], week_start = 0\<rparr>"
  by (simp add: ledger0_def window_of_def get_weekly_donations_def add_donation_def new_guild_def
      new_week_def new_total_def timedelta_days_def day_us_def Let_def)

lemma ledger0_wf: "wf_ledger ledger0"
  by (simp add: ledger0_def wf_ledger_def add_donation_def new_guild_def new_week_def
      new_total_def timedelta_days_def day_us_def Let_def)

text \<open>
  Claim C2. A call of \<^verbatim>\<open>add_donation\<close> at time \<open>now\<close> for a player whose window is
  anchored at \<open>week_start w\<close>: when less than seven days have passed, the window keeps its
  anchor and its name, its amount grows by the donation and the record is appended to its
  list; when seven days or more have passed, the window is replaced by a fresh one that is
  anchored at \<open>now\<close> and holds the new record alone.
\<close>

theorem append_window:
  assumes "window_of data g u = Some w"
  shows "(now - week_start w < 7 * day_us \<longrightarrow>
           window_of (add_donation g u nm amt now data) g u =
             Some (w\<lparr>amount := amount w + amt,
                     donations := donations w @ [\<lparr>rec_amount = amt, rec_timestamp = now\<rparr>]\<rparr>))
       \<and> (now - week_start w \<ge> 7 * day_us \<longrightarrow>
           window_of (add_donation g u nm amt now data) g u =
             Some \<lparr>name = nm, amount = amt,
                   donations = [\<lparr>rec_amount = amt, rec_timestamp = now\<rparr>], week_start = now\<rparr>)"
  using assms
  by (auto simp: window_of_def get_weekly_donations_def add_donation_def Let_def AList.update_conv'
      timedelta_days_ge7 new_week_def split: option.splits)

text \<open>The window of \<open>ledger0\<close> is anchored at 0: a donation at six days and 23 hours
  joins it, a donation at seven days starts a fresh window.\<close>

theorem append_window_witness:
  "window_of ledger0 ''1'' ''7'' =
     Some \<lparr>name = ''ann'', amount = 50,
           donations = [\<lparr>rec_amount = 50, rec_timestamp = 0\<rparr>], week_start = 0\<rparr>
   \<and> window_of (add_donation ''1'' ''7'' ''ann'' 30 (6 * day_us + 23 * 3600000000) ledger0) ''1'' ''7'' =
     Some \<lparr>name = ''ann'', amount = 80,
           donations = [\<lparr>rec_amount = 50, rec_timestamp = 0\<rparr>,
                        \<lparr>rec_amount = 30, rec_timestamp = 6 * day_us + 23 * 3600000000\<rparr>],
           week_start = 0\<rparr>
   \<and> window_of (add_donation ''1'' ''7'' ''ann'' 30 (7 * day_us) ledger0) ''1'' ''7'' =
     Some \<lparr>name = ''ann'', amount = 30,
           donations = [\<lparr>rec_amount = 30, rec_timestamp = 7 * day_us\<rparr>],
           week_start = 7 * day_us\<rparr>"
  using append_window [OF ledger0_window, of "6 * day_us + 23 * 3600000000" "''ann''" 30]
        append_window [OF ledger0_window, of "7 * day_us" "''ann''" 30]
        ledger0_window
  by (simp add: day_us_def)

text \<open>
  Claim C3, as the code has it. \<^verbatim>\<open>cleanup_expired_weeks\<close> at time \<open>now\<close> removes the
  weekly entry of every player whose window is seven days old or older (the player then
  has no window until the next donation creates one), leaves every younger window as it
  is, and leaves \<^verbatim>\<open>total_donations\<close> of every guild as it is.
\<close>

theorem sweep_removes_expired:
  assumes "wf_ledger data"
  shows "window_of (cleanup_expired_weeks now data) g u =
           (case window_of data g u of
              None \<Rightarrow> None
            | Some w \<Rightarrow> if now - week_start w \<ge> 7 * day_us then None else Some w)
         \<and> get_total_donations (cleanup_expired_weeks now data) g = get_total_donations data g"
proof (cases "map_of data g")
  case None
  then show ?thesis
    by (simp add: window_of_def get_weekly_donations_def get_total_donations_def map_of_cleanup)
next
  case (Some guild)
  then have "guild \<in> snd ` set data"
    by (force dest: map_of_SomeD)
  with assms have d: "distinct (map fst (weekly_donations guild))"
    by (auto simp: wf_ledger_def)
  show ?thesis
    using Some expired_key_iff [OF d, of u now]
    by (auto simp: window_of_def get_weekly_donations_def get_total_donations_def map_of_cleanup
        cleanup_guild_def fold_delete_filter map_of_filter_keys timedelta_days_ge7
        split: option.splits)
qed

text \<open>A sweep of \<open>ledger0\<close> one microsecond before the seventh day keeps the window, and
  the total entry stays.\<close>

theorem sweep_removes_expired_witness:
  "wf_ledger ledger0
   \<and> window_of (cleanup_expired_weeks (7 * day_us - 1) ledger0) ''1'' ''7'' =
       Some \<lparr>name = ''ann'', amount = 50,
             donations = [\<lparr>rec_amount = 50, rec_timestamp = 0\<rparr>], week_start = 0\<rparr>
   \<and> window_of (cleanup_expired_weeks (9 * day_us) ledger0) ''1'' ''7'' = None
   \<and> get_total_donations (cleanup_expired_weeks (9 * day_us) ledger0) ''1'' =
       get_total_donations ledger0 ''1''"
  using sweep_removes_expired [OF ledger0_wf, of "7 * day_us - 1" "''1''" "''7''"]
        sweep_removes_expired [OF ledger0_wf, of "9 * day_us" "''1''" "''7''"]
        ledger0_wf
  by (simp add: ledger0_window day_us_def)

text \<open>
  Claim C3 as stated fails: the window of \<open>ledger0\<close> is anchored at 0, and the sweep at
  seven days does not leave a window with its events cleared and a new anchor, it leaves
  no window at all.
\<close>

theorem sweep_reset_in_place_counterexample:
  "window_of ledger0 ''1'' ''7'' =
     Some \<lparr>name = ''ann'', amount = 50,
           donations = [\<lparr>rec_amount = 50, rec_timestamp = 0\<rparr>], week_start = 0\<rparr>
   \<and> window_of (cleanup_expired_weeks (7 * day_us) ledger0) ''1'' ''7'' = None"
  by (simp add: ledger0_window)
     (simp add: ledger0_def window_of_def get_weekly_donations_def add_donation_def new_guild_def
      new_week_def new_total_def timedelta_days_def day_us_def Let_def cleanup_expired_weeks_def
      cleanup_guild_def expired_players_def)

text \<open>
  Claim C4. After any history of \<^verbatim>\<open>add_donation\<close> and \<^verbatim>\<open>cleanup_expired_weeks\<close> calls
  on an empty ledger, a player's total entry exists exactly when the history appended for
  that player; its amount is the sum of all the amounts appended for the player, its list
  holds all the appended records in order, and a further sweep leaves it as it is.
\<close>

theorem total_aggregate_exact:
  "map_option amount (total_of (run_ops ops []) g u) =
     (if appended ops g u = [] then None
      else Some (sum_list (map rec_amount (appended ops g u))))
   \<and> map_option donations (total_of (run_ops ops []) g u) =
     (if appended ops g u = [] then None else Some (appended ops g u))
   \<and> total_of (cleanup_expired_weeks now (run_ops ops [])) g u = total_of (run_ops ops []) g u"
  by (simp add: total_amount_run total_events_run total_of_cleanup total_of_empty)

text \<open>
  Claim C5. Two sweeps in succession at the same time: the second one changes nothing
  (and deletes nothing, so it does not save either).
\<close>

theorem sweep_idempotent:
  "cleanup_expired_weeks now (cleanup_expired_weeks now data) = cleanup_expired_weeks now data
   \<and> total_cleaned now (cleanup_expired_weeks now data) = 0"
proof
  show "cleanup_expired_weeks now (cleanup_expired_weeks now data) = cleanup_expired_weeks now data"
    by (induction data) (auto simp: cleanup_expired_weeks_def cleanup_guild_idem)
  show "total_cleaned now (cleanup_expired_weeks now data) = 0"
    by (rule total_cleaned_after)
qed

section \<open>Properties of persistence and of the report\<close>

lemma not_long_numeric_0: "\<not> long_numeric ''0''"
  by (simp add: long_numeric_def)

lemma json_wrap_neq: "JObj [(k, d)] \<noteq> d"
proof
  assume "JObj [(k, d)] = d"
  then have "size (JObj [(k, d)]) = size d" by simp
  then show False by simp
qed

lemma legacy_ledger_keys: "\<not> list_ex long_numeric (map fst legacy_ledger)"
  by (simp add: legacy_ledger_def long_numeric_def str_isdigit_def isdigit_def)

lemma legacy_directory_keys: "\<not> list_ex long_numeric (map fst legacy_directory)"
  by (simp add: legacy_directory_def long_numeric_def)

lemma keys_add_donation:
  "fst ` set (add_donation g u nm amt now data) = insert g (fst ` set data)"
  by (simp add: add_donation_def Let_def AList.dom_update)

lemma keys_cleanup: "map fst (cleanup_expired_weeks now data) = map fst data"
  by (induction data) (auto simp: cleanup_expired_weeks_def)

lemma keys_run_ops:
  "fst ` set (run_ops ops data) = fst ` set data \<union> set (op_guilds ops)"
proof (induction ops arbitrary: data)
  case Nil
  then show ?case by (simp add: run_ops_def)
next
  case (Cons x ops)
  show ?case
  proof (cases x)
    case (Append g u nm amt now)
    then show ?thesis
      unfolding run_ops_Cons Cons.IH by (simp add: keys_add_donation)
  next
    case (Sweep now)
    then show ?thesis
      unfolding run_ops_Cons Cons.IH using keys_cleanup [of now data] by (simp flip: set_map)
  qed
qed

lemma decimal_id_not_key: "decimal_id g \<Longrightarrow> g \<noteq> ''weekly_donations''"
  by (auto simp: decimal_id_def isdecimal_def)

lemma load_donations_no_key:
  "''weekly_donations'' \<notin> set (map fst data) \<Longrightarrow>
   load_donations (Stored (enc_data data)) = Inr (enc_data data)"
  by (simp add: load_donations_def enc_data_def image_iff split_beta)

lemma ints_enc_total: "ints_of (enc_total t) = amount t # map rec_amount (donations t)"
  by (simp add: enc_total_def enc_record_def comp_def)

lemma ints_enc_weekly: "ints_of (enc_weekly w) = amount w # map rec_amount (donations w)"
  by (simp add: enc_weekly_def enc_record_def comp_def)

lemma ints_enc_guild:
  "ints_of (enc_guild g) =
     concat (map (\<lambda>p. amount (snd p) # map rec_amount (donations (snd p))) (weekly_donations g)) @
     concat (map (\<lambda>p. amount (snd p) # map rec_amount (donations (snd p))) (total_donations g))"
  by (simp add: enc_guild_def comp_def split_beta ints_enc_weekly ints_enc_total
      split: option.splits)

lemma ints_enc_data:
  "ints_of (enc_data data) = concat (map (\<lambda>p. ints_of (enc_guild (snd p))) data)"
  by (simp add: enc_data_def comp_def split_beta)

lemma total_amount_in_doc:
  assumes "total_of data g u = Some t"
  shows "amount t \<in> set (ints_of (enc_data data))"
proof -
  from assms obtain guild where g: "map_of data g = Some guild"
    and t: "map_of (total_donations guild) u = Some t"
    by (auto simp: total_of_def get_total_donations_def split: option.splits)
  have "(u, t) \<in> set (total_donations guild)" using t by (rule map_of_SomeD)
  then have "amount t \<in> set (concat (map (\<lambda>p. amount (snd p) # map rec_amount (donations (snd p)))
                                          (total_donations guild)))"
    by (auto intro!: bexI [of _ "(u, t)"])
  then have "amount t \<in> set (ints_of (enc_guild guild))"
    by (simp add: ints_enc_guild)
  moreover have "(g, guild) \<in> set data" using g by (rule map_of_SomeD)
  ultimately show ?thesis
    by (auto simp: ints_enc_data intro!: bexI [of _ "(g, guild)"])
qed

lemma max_lim: "max (4300::nat) 640 = 4300"
  by simp

lemma int_str_ok_4300: "int_str_ok 4300 n \<longleftrightarrow> \<bar>n\<bar> < 10 ^ 4300"
proof -
  have "(4300::nat) \<noteq> 0"
    by simp
  then show ?thesis
    unfolding int_str_ok_def max_lim by blast
qed

lemma huge_twice: "\<not> int_str_ok 4300 (huge_amount + huge_amount)"
proof -
  define P where "P = (10::int) ^ 4300"
  have "(10::int) ^ 1 \<le> 10 ^ 4300"
    by (rule power_increasing) simp_all
  then have "10 \<le> P"
    unfolding P_def by (simp only: power_one_right)
  then have "\<not> \<bar>(P - 1) + (P - 1)\<bar> < P"
    by linarith
  then show ?thesis
    unfolding int_str_ok_4300 huge_amount_def P_def .
qed

lemma small_ok:
  fixes n :: int
  assumes "\<bar>n\<bar> < 1000"
  shows "int_str_ok 4300 n"
proof -
  define P where "P = (10::int) ^ 4300"
  have "(10::int) ^ 3 \<le> 10 ^ 4300"
    by (rule power_increasing) simp_all
  moreover have "(10::int) ^ 3 = 1000"
    by simp
  ultimately have "1000 \<le> P"
    unfolding P_def by (simp only:)
  with assms have "\<bar>n\<bar> < P"
    by linarith
  then show ?thesis
    unfolding int_str_ok_4300 P_def .
qed

lemma huge_history_guilds: "list_all decimal_id (op_guilds huge_history)"
  by (simp add: huge_history_def decimal_id_def isdecimal_def)

lemma huge_history_total:
  "map_option amount (total_of (run_ops huge_history []) ''123456789012345678'' ''7'') =
     Some (huge_amount + huge_amount)"
  by (simp add: total_amount_run total_of_empty huge_history_def)

lemma huge_history_not_dumpable: "\<not> json_dumpable 4300 (enc_data (run_ops huge_history []))"
proof -
  from huge_history_total obtain t where
    t: "total_of (run_ops huge_history []) ''123456789012345678'' ''7'' = Some t"
    and a: "amount t = huge_amount + huge_amount"
    by auto
  have "amount t \<in> set (ints_of (enc_data (run_ops huge_history [])))"
    using t by (rule total_amount_in_doc)
  then show ?thesis
    using huge_twice a by (auto simp: json_dumpable_def list_all_iff)
qed

lemma huge_history_doc: "enc_data (run_ops huge_history []) \<noteq> JObj []"
proof -
  have "total_of (run_ops huge_history []) ''123456789012345678'' ''7'' \<noteq> None"
    using huge_history_total by auto
  then have "run_ops huge_history [] \<noteq> []"
    by (auto simp: total_of_empty)
  then show ?thesis
    by (simp add: enc_data_def)
qed

lemma history0_guilds: "list_all decimal_id (op_guilds history0)"
  by (simp add: history0_def decimal_id_def isdecimal_def)

lemma history0_dumpable: "json_dumpable 4300 (enc_data (run_ops history0 []))"
proof -
  have "list_all (\<lambda>n. \<bar>n\<bar> < 1000) (ints_of (enc_data (run_ops history0 [])))"
    by (simp add: history0_def run_ops_def add_donation_def cleanup_expired_weeks_def
        cleanup_guild_def expired_players_def new_guild_def new_week_def new_total_def
        timedelta_days_def day_us_def Let_def ints_enc_data ints_enc_guild)
  then show ?thesis
    using small_ok by (auto simp: json_dumpable_def list_all_iff)
qed

lemma report_KeyError:
  assumes "''weekly_donations'' \<notin> set (map fst kvs)"
  shows "generate_weekly_report (JObj kvs) now = Inl KeyError"
proof -
  have "map_of kvs ''weekly_donations'' = None"
    using assms by (simp add: map_of_eq_None_iff)
  then show ?thesis
    by (simp add: generate_weekly_report_def)
qed

lemma report_success_key:
  "generate_weekly_report store now = Inr r \<Longrightarrow>
   \<exists>kvs. store = JObj kvs \<and> ''weekly_donations'' \<in> set (map fst kvs)"
  by (cases store)
     (force simp: generate_weekly_report_def split: option.splits dest: map_of_SomeD)+

lemma load_donations_key:
  "load_donations file = Inr (JObj kvs) \<Longrightarrow> ''weekly_donations'' \<in> set (map fst kvs) \<Longrightarrow>
   file = Stored (JObj kvs) \<and> list_ex long_numeric (map fst kvs)"
  by (auto simp: load_donations_def split: stored.splits json.splits if_splits)

lemma hybrid_keys:
  "''weekly_donations'' \<in> set (map fst hybrid_ledger) \<and> list_ex long_numeric (map fst hybrid_ledger)"
  by (simp add: hybrid_ledger_def long_numeric_def str_isdigit_def isdigit_def)

lemma hybrid_load: "load_donations (Stored (JObj hybrid_ledger)) = Inr (JObj hybrid_ledger)"
  using hybrid_keys by (simp add: load_donations_def)

lemma hybrid_report:
  "generate_weekly_report (JObj hybrid_ledger) (2 * day_us) =
     Inr (Summary [\<lparr>rank = 1, player = JStr ''ann'', given = 50, donation_count = 1,
                     days_remaining = 5\<rparr>] 50 1)"
  by (simp add: hybrid_ledger_def generate_weekly_report_def read_entry_def sorted_players_def
      report_lines_def timedelta_days_def day_us_def)

lemma ledger0_keys: "list_all decimal_id (map fst ledger0)"
  by (simp add: ledger0_def add_donation_def Let_def decimal_id_def isdecimal_def)

text \<open>
  Claim C7, as the code has it. A stored document none of whose top-level keys is a
  numeric string longer than ten characters is wrapped whole under the single key
  \<^verbatim>\<open>"0"\<close> by \<^verbatim>\<open>load_donations\<close> when it has the top-level key \<^verbatim>\<open>weekly_donations\<close>,
  and by \<^verbatim>\<open>load_registered_players\<close> when it is not empty.
\<close>

theorem legacy_migration:
  assumes "\<not> list_ex long_numeric (map fst kvs)"
  shows "(''weekly_donations'' \<in> set (map fst kvs) \<longrightarrow>
            load_donations (Stored (JObj kvs)) = Inr (JObj [(''0'', JObj kvs)]))
       \<and> (kvs \<noteq> [] \<longrightarrow>
            load_registered_players (Stored (JObj kvs)) = Inr (JObj [(''0'', JObj kvs)]))"
  using assms by (simp add: load_donations_def load_registered_players_def)

theorem legacy_migration_witness:
  "\<not> list_ex long_numeric (map fst legacy_ledger)
   \<and> ''weekly_donations'' \<in> set (map fst legacy_ledger)
   \<and> load_donations (Stored (JObj legacy_ledger)) = Inr (JObj [(''0'', JObj legacy_ledger)])
   \<and> \<not> list_ex long_numeric (map fst legacy_directory)
   \<and> legacy_directory \<noteq> []
   \<and> load_registered_players (Stored (JObj legacy_directory)) =
       Inr (JObj [(''0'', JObj legacy_directory)])"
proof -
  have k: "''weekly_donations'' \<in> set (map fst legacy_ledger)"
    by (simp add: legacy_ledger_def)
  have n: "legacy_directory \<noteq> []"
    by (simp add: legacy_directory_def)
  show ?thesis
    using legacy_migration [OF legacy_ledger_keys] legacy_migration [OF legacy_directory_keys]
      legacy_ledger_keys legacy_directory_keys k n
    by blast
qed

text \<open>
  Claim C7 as stated fails: a ledger file whose only top-level key is the short,
  non-numeric player identity \<open>ann\<close> is returned as it is by \<^verbatim>\<open>load_donations\<close>, with no
  synthetic tenant, and so is an empty directory file by \<^verbatim>\<open>load_registered_players\<close>.
\<close>

theorem legacy_migration_counterexample:
  "\<not> list_ex long_numeric (map fst [(''ann'', JObj [(''amount'', JInt 50)])])
   \<and> load_donations (Stored (JObj [(''ann'', JObj [(''amount'', JInt 50)])])) =
       Inr (JObj [(''ann'', JObj [(''amount'', JInt 50)])])
   \<and> load_registered_players (Stored (JObj [])) = Inr (JObj [])"
  by (simp add: load_donations_def load_registered_players_def long_numeric_def)

text \<open>
  Claim C8, as the code has it. For the ledger that any history of \<^verbatim>\<open>add_donation\<close> and
  \<^verbatim>\<open>cleanup_expired_weeks\<close> calls builds from the empty ledger, the guild ids being
  decimal numerals as \<^verbatim>\<open>str(guild.id)\<close> is: when every integer of the ledger (each
  recorded amount and each running total) has no more digits than the interpreter lets
  \<^verbatim>\<open>json.dump\<close> write, \<^verbatim>\<open>save_donations\<close> succeeds and \<^verbatim>\<open>load_donations\<close> then returns
  the saved document itself, the migration test neither wrapping nor changing it;
  otherwise \<^verbatim>\<open>save_donations\<close> raises \<^verbatim>\<open>ValueError\<close>, and \<^verbatim>\<open>load_donations\<close> then
  returns the empty dictionary.
\<close>

theorem ledger_roundtrip:
  assumes "list_all decimal_id (op_guilds ops)"
  shows "(json_dumpable lim (enc_data (run_ops ops [])) \<longrightarrow>
            save_donations lim (enc_data (run_ops ops [])) =
              (Stored (enc_data (run_ops ops [])), None)
            \<and> load_donations (fst (save_donations lim (enc_data (run_ops ops [])))) =
                Inr (enc_data (run_ops ops [])))
       \<and> (\<not> json_dumpable lim (enc_data (run_ops ops [])) \<longrightarrow>
            save_donations lim (enc_data (run_ops ops [])) = (Unreadable, Some ValueError)
            \<and> load_donations (fst (save_donations lim (enc_data (run_ops ops [])))) =
                Inr (JObj []))"
proof -
  have "''weekly_donations'' \<notin> set (op_guilds ops)"
    using assms decimal_id_not_key by (auto simp: list_all_iff)
  then have "''weekly_donations'' \<notin> set (map fst (run_ops ops []))"
    by (simp add: keys_run_ops)
  then have "load_donations (Stored (enc_data (run_ops ops []))) = Inr (enc_data (run_ops ops []))"
    by (rule load_donations_no_key)
  then show ?thesis
    by (simp add: save_donations_def load_donations_def)
qed

text \<open>The history \<open>history0\<close> under the default limit of 4300 digits: the save succeeds
  and the load returns the document. The history \<open>huge_history\<close>: the save raises.\<close>

theorem ledger_roundtrip_witness:
  "list_all decimal_id (op_guilds history0)
   \<and> json_dumpable 4300 (enc_data (run_ops history0 []))
   \<and> save_donations 4300 (enc_data (run_ops history0 [])) =
       (Stored (enc_data (run_ops history0 [])), None)
   \<and> load_donations (fst (save_donations 4300 (enc_data (run_ops history0 [])))) =
       Inr (enc_data (run_ops history0 []))
   \<and> list_all decimal_id (op_guilds huge_history)
   \<and> \<not> json_dumpable 4300 (enc_data (run_ops huge_history []))
   \<and> save_donations 4300 (enc_data (run_ops huge_history [])) = (Unreadable, Some ValueError)"
  using ledger_roundtrip [OF history0_guilds, of 4300] ledger_roundtrip [OF huge_history_guilds, of 4300]
    history0_guilds history0_dumpable huge_history_guilds huge_history_not_dumpable
  by blast

text \<open>
  Claim C8 as stated fails for a ledger with an integer of more digits than the limit:
  after two donations of \<open>10 ^ 4300 - 1\<close> to one player the running total has 4301
  digits, \<^verbatim>\<open>save_donations\<close> raises \<^verbatim>\<open>ValueError\<close> under the default limit, and
  \<^verbatim>\<open>load_donations\<close> reads the empty dictionary from the file, not the ledger.
\<close>

theorem ledger_roundtrip_counterexample:
  "list_all decimal_id (op_guilds huge_history)
   \<and> save_donations 4300 (enc_data (run_ops huge_history [])) = (Unreadable, Some ValueError)
   \<and> load_donations (fst (save_donations 4300 (enc_data (run_ops huge_history [])))) =
       Inr (JObj [])
   \<and> enc_data (run_ops huge_history []) \<noteq> JObj []"
  using huge_history_guilds huge_history_not_dumpable huge_history_doc
  by (simp add: save_donations_def load_donations_def)

text \<open>
  Claim C9, as the code has it. \<^verbatim>\<open>generate_weekly_report\<close> raises \<^verbatim>\<open>KeyError\<close> on every
  dictionary that has no top-level key \<^verbatim>\<open>weekly_donations\<close>, so on every ledger whose
  keys are guild ids; when it returns a report, the store is a dictionary with that key;
  and \<^verbatim>\<open>load_donations\<close> returns a dictionary with that key only when the file holds
  that very dictionary and one of its keys is a long numeric string.
\<close>

theorem report_needs_top_level_key:
  "(''weekly_donations'' \<notin> set (map fst kvs) \<longrightarrow>
      generate_weekly_report (JObj kvs) now = Inl KeyError)
   \<and> (list_all decimal_id (map fst data) \<longrightarrow>
      generate_weekly_report (enc_data data) now = Inl KeyError)
   \<and> (generate_weekly_report store now = Inr r \<longrightarrow>
      (\<exists>kvs'. store = JObj kvs' \<and> ''weekly_donations'' \<in> set (map fst kvs')))
   \<and> (load_donations file = Inr (JObj kvs) \<and> ''weekly_donations'' \<in> set (map fst kvs) \<longrightarrow>
      file = Stored (JObj kvs) \<and> list_ex long_numeric (map fst kvs))"
proof (intro conjI impI)
  assume "''weekly_donations'' \<notin> set (map fst kvs)"
  then show "generate_weekly_report (JObj kvs) now = Inl KeyError"
    by (rule report_KeyError)
next
  assume a: "list_all decimal_id (map fst data)"
  have "''weekly_donations'' \<notin> set (map fst data)"
    using a decimal_id_not_key by (force simp: list_all_iff)
  then show "generate_weekly_report (enc_data data) now = Inl KeyError"
    by (simp add: enc_data_def report_KeyError image_iff split_beta)
next
  assume "generate_weekly_report store now = Inr r"
  then show "\<exists>kvs'. store = JObj kvs' \<and> ''weekly_donations'' \<in> set (map fst kvs')"
    by (rule report_success_key)
next
  assume "load_donations file = Inr (JObj kvs) \<and> ''weekly_donations'' \<in> set (map fst kvs)"
  then show "file = Stored (JObj kvs)" "list_ex long_numeric (map fst kvs)"
    using load_donations_key by blast+
qed

text \<open>The migrated legacy ledger and the ledger \<open>ledger0\<close> raise \<^verbatim>\<open>KeyError\<close>; the
  report succeeds on the document \<open>hybrid_ledger\<close>, which has the key, and a file with
  that document is loaded as it is, a long numeric key standing next to the key.\<close>

theorem report_needs_top_level_key_witness:
  "''weekly_donations'' \<notin> set (map fst [(''0'', JObj legacy_ledger)])
   \<and> generate_weekly_report (JObj [(''0'', JObj legacy_ledger)]) (2 * day_us) = Inl KeyError
   \<and> list_all decimal_id (map fst ledger0)
   \<and> generate_weekly_report (enc_data ledger0) (2 * day_us) = Inl KeyError
   \<and> generate_weekly_report (JObj hybrid_ledger) (2 * day_us) =
       Inr (Summary [\<lparr>rank = 1, player = JStr ''ann'', given = 50, donation_count = 1,
                       days_remaining = 5\<rparr>] 50 1)
   \<and> ''weekly_donations'' \<in> set (map fst hybrid_ledger)
   \<and> load_donations (Stored (JObj hybrid_ledger)) = Inr (JObj hybrid_ledger)
   \<and> list_ex long_numeric (map fst hybrid_ledger)"
proof -
  have k: "''weekly_donations'' \<notin> set (map fst [(''0'', JObj legacy_ledger)])"
    by simp
  show ?thesis
    using report_needs_top_level_key
            [of "[(''0'', JObj legacy_ledger)]" "2 * day_us" ledger0 "JObj hybrid_ledger"
               "Summary [\<lparr>rank = 1, player = JStr ''ann'', given = 50, donation_count = 1,
                          days_remaining = 5\<rparr>] 50 1"]
          k ledger0_keys hybrid_keys hybrid_load hybrid_report
    by simp
qed

text \<open>
  Claim C9 as stated fails in its last part: \<^verbatim>\<open>load_donations\<close> does return a store
  with the top-level key \<^verbatim>\<open>weekly_donations\<close>, for a file that has a long numeric key
  next to it, and \<^verbatim>\<open>generate_weekly_report\<close> returns a summary for that store.
\<close>

theorem report_key_error_counterexample:
  "load_donations (Stored (JObj hybrid_ledger)) = Inr (JObj hybrid_ledger)
   \<and> generate_weekly_report (JObj hybrid_ledger) (2 * day_us) =
       Inr (Summary [\<lparr>rank = 1, player = JStr ''ann'', given = 50, donation_count = 1,
                       days_remaining = 5\<rparr>] 50 1)"
  by (simp add: hybrid_load hybrid_report)

text \<open>
  Claim C10. \<^verbatim>\<open>load_registered_players\<close> wraps every non-empty dictionary that has no
  long numeric key; the key \<^verbatim>\<open>"0"\<close> of the synthetic tenant is not long, so a directory
  \<^verbatim>\<open>{"0": d}\<close> that is saved and loaded again comes back as \<^verbatim>\<open>{"0": {"0": d}}\<close>, which
  is not the saved document.
\<close>

theorem directory_roundtrip_rewraps:
  "(kvs \<noteq> [] \<and> \<not> list_ex long_numeric (map fst kvs) \<longrightarrow>
      load_registered_players (Stored (JObj kvs)) = Inr (JObj [(''0'', JObj kvs)]))
   \<and> \<not> long_numeric ''0''
   \<and> load_registered_players (save_registered_players (JObj [(''0'', d)])) =
       Inr (JObj [(''0'', JObj [(''0'', d)])])
   \<and> JObj [(''0'', JObj [(''0'', d)])] \<noteq> JObj [(''0'', d)]"
  by (simp add: load_registered_players_def save_registered_players_def not_long_numeric_0
      json_wrap_neq)

text \<open>The legacy directory is migrated by the first load; saved and loaded again, it is
  wrapped a second time.\<close>

theorem directory_roundtrip_rewraps_witness:
  "legacy_directory \<noteq> [] \<and> \<not> list_ex long_numeric (map fst legacy_directory)
   \<and> load_registered_players (Stored (JObj legacy_directory)) =
       Inr (JObj [(''0'', JObj legacy_directory)])
   \<and> load_registered_players (save_registered_players (JObj [(''0'', JObj legacy_directory)])) =
       Inr (JObj [(''0'', JObj [(''0'', JObj legacy_directory)])])
   \<and> JObj [(''0'', JObj [(''0'', JObj legacy_directory)])] \<noteq> JObj [(''0'', JObj legacy_directory)]"
proof -
  have n: "legacy_directory \<noteq> []"
    by (simp add: legacy_directory_def)
  show ?thesis
    using directory_roundtrip_rewraps [of legacy_directory "JObj legacy_directory"]
      n legacy_directory_keys
    by blast
qed


section \<open>Properties of the pattern extractor\<close>

text \<open>The equations of \<^const>\<open>ms\<close> for the two stars rewrite a star by itself; they are
  applied by hand.\<close>

declare ms.simps(5) [simp del]

declare ms.simps(6) [simp del]


























lemma dec_value_snoc:
  "dec_value (s @ [c]) = 10 * dec_value s + (int (of_char c) - 48)"
  by (simp add: dec_value_def)








lemma long_digits_decimal: "list_all isdecimal long_digits"
  by (simp add: long_digits_def list_all_iff isdecimal_def)










subsection \<open>Patterns that cannot match a phrasing\<close>








lemma decimal_numeral_char: "isdecimal c \<Longrightarrow> numeral_char c"
  by (simp add: numeral_char_def)



subsection \<open>The group on an amount with separators\<close>


lemma decimal_not_newline: "isdecimal c \<Longrightarrow> c \<noteq> CHR 0x0A"
  by (auto simp: isdecimal_def)






















subsection \<open>The seventeen phrasings\<close>























subsection \<open>The extraction rules in their order\<close>




text \<open>One text for each of the seventeen patterns, a text in upper case, and two texts
  without an amount.\<close>

lemma supported_phrasings:
  "map (parse_donation_message 4300)
     [''donated **1,000** gold'', ''you have donated **250** gold'', ''donated 1,234,567 coins'',
      ''contributed 40 coin'', ''gave 5 coins'', ''75 coins donated'', ''300 coins to the clan'',
      ''clan donation: 12'', ''9 coins added to clan'', ''clan treasury now holds 1,500'',
      ''20 coins clan donation'', ''deposited 60 coins'', ''60 coins deposited'',
      ''3 rubies donated'', ''donated 3 rubies'', ''8 rubie to the clan'',
      ''8 rubies added to clan'']
   = [Some 1000, Some 250, Some 1234567, Some 40, Some 5, Some 75, Some 300, Some 12, Some 9,
      Some 1500, Some 20, Some 60, Some 60, Some 3, Some 3, Some 8, Some 8]"
  by code_simp

lemma upper_case_phrasing:
  "parse_donation_message 4300 ''You have DONATED **1,000** Gold'' = Some 1000"
  by code_simp

lemma no_amount:
  "parse_donation_message 4300 ''hello 5 world'' = None"
  "parse_donation_message 4300 ''donated lots of coins'' = None"
  by code_simp+


section \<open>Properties of the attribution\<close>

lemmas rx_eval =
  parse_donation_message_def has_keyword_def lower_def lower_char_def donation_keywords_def
  patterns_def pat_def sp_def num_def coins_def rubies_def Plus_def match_here_def isspace_def
  isdecimal_def py_int_def remove_commas_def dec_value_def Let_def sublist_code(3)
  ms.simps(5) ms.simps(6)

lemma message0_amount: "donation_info 4300 message0 = Some 500"
  by (simp add: donation_info_def message0_def rx_eval)

lemma credit_mentions_count:
  "k \<le> snd (credit_mentions players g amt clock us (data, k))"
proof (induction us arbitrary: data k)
  case Nil
  then show ?case by simp
next
  case (Cons u us)
  show ?case
  proof (cases "registered_name players g u")
    case None
    then show ?thesis by (simp add: Cons.IH)
  next
    case (Some nm)
    have "Suc k \<le> snd (credit_mentions players g amt clock us
                          (add_donation g u nm amt (clock k) data, Suc k))"
      by (rule Cons.IH)
    with Some show ?thesis by simp
  qed
qed

lemma credit_mentions_positive:
  assumes "\<exists>u \<in> set us. registered_name players g u \<noteq> None"
  shows "k < snd (credit_mentions players g amt clock us (data, k))"
  using assms
proof (induction us arbitrary: data k)
  case Nil
  then show ?case by simp
next
  case (Cons u us)
  show ?case
  proof (cases "registered_name players g u")
    case None
    with Cons.prems have "\<exists>u \<in> set us. registered_name players g u \<noteq> None"
      by auto
    then have "k < snd (credit_mentions players g amt clock us (data, k))"
      by (rule Cons.IH)
    with None show ?thesis by simp
  next
    case (Some nm)
    have "Suc k \<le> snd (credit_mentions players g amt clock us
                          (add_donation g u nm amt (clock k) data, Suc k))"
      by (rule credit_mentions_count)
    with Some show ?thesis by simp
  qed
qed

lemma is_player_registered_iff:
  "is_player_registered players g u \<longleftrightarrow> registered_name players g u \<noteq> None"
proof (cases "map_of players g")
  case None
  then show ?thesis by (simp add: is_player_registered_def registered_name_def)
next
  case (Some ps)
  have "u \<in> fst ` set ps \<longleftrightarrow> map_of ps u \<noteq> None"
    by (simp add: map_of_eq_None_iff)
  with Some show ?thesis by (simp add: is_player_registered_def registered_name_def)
qed

lemma registered_mention_skips_fallback:
  assumes "donation_info lim m = Some amt"
    and "\<exists>u \<in> set (mentions m). is_player_registered players (guild m) u"
  shows "process_donation_message lim players clock m data =
           (fst (credit_mentions players (guild m) amt clock (mentions m) (data, 0)), Some Tracked)"
proof -
  have "snd (credit_mentions players (guild m) amt clock (mentions m) (data, 0)) > 0"
    using assms(2) by (intro credit_mentions_positive) (simp add: is_player_registered_iff)
  then show ?thesis
    using assms(1) by (simp add: process_donation_message_def Let_def split_beta)
qed

text \<open>
  Claim C1 says that the first registered mention wins and that exactly one record is
  appended. The loop over the mentions has no \<^verbatim>\<open>break\<close> (the fallback loop over the
  names has one): in \<open>message0\<close> the users 1 and 2 are both mentioned and registered, and
  the one donation of 500 is recorded for each of them. (The name of a third registered
  player occurs in the text and is not consulted.)
\<close>

theorem two_registered_mentions_both_credited:
  "process_donation_message 4300 players0 (\<lambda>k. int k) message0 [] =
     (add_donation ''9'' ''2'' ''bob'' 500 1 (add_donation ''9'' ''1'' ''ann'' 500 0 []),
      Some Tracked)
   \<and> map_option donations
        (total_of (fst (process_donation_message 4300 players0 (\<lambda>k. int k) message0 [])) ''9'' ''1'') =
      Some [\<lparr>rec_amount = 500, rec_timestamp = 0\<rparr>]
   \<and> map_option donations
        (total_of (fst (process_donation_message 4300 players0 (\<lambda>k. int k) message0 [])) ''9'' ''2'') =
      Some [\<lparr>rec_amount = 500, rec_timestamp = 1\<rparr>]"
proof -
  have p: "process_donation_message 4300 players0 (\<lambda>k. int k) message0 [] =
     (add_donation ''9'' ''2'' ''bob'' 500 1 (add_donation ''9'' ''1'' ''ann'' 500 0 []),
      Some Tracked)"
    by (simp add: process_donation_message_def message0_amount)
       (simp add: message0_def players0_def registered_name_def Let_def)
  show ?thesis
    unfolding p by (simp add: total_of_add_donation total_of_empty new_total_def)
qed

end
